theory Spec2Isabelle
  imports Main "HOL-Library.Word"
begin

section \<open>Data model of \<^verbatim>\<open>main.go\<close>\<close>

text \<open>
  Go's \<^verbatim>\<open>int\<close> is a 64-bit two's complement integer on the platforms the tool runs on:
  it is a \<open>64 word\<close>, compared with the signed order \<open><s\<close> and read with \<open>sint\<close>;
  \<open>+\<close> wraps around as Go's does.
\<close>

type_synonym go_int = "64 word"

text \<open>
  Go \<^verbatim>\<open>error\<close> values. \<open>ErrorString\<close> is an error carrying a message (a network error,
  a JSON error, \<^verbatim>\<open>fmt.Errorf\<close>, an \<^verbatim>\<open>*exec.ExitError\<close>); \<open>NumError f s\<close> is
  \<^verbatim>\<open>*strconv.NumError{Func: f, Num: s}\<close> (its \<^verbatim>\<open>Err\<close> field, syntax or range, is not
  distinguished).
\<close>

datatype go_error = ErrorString string | NumError string string

text \<open>A call either returns or panics (a Go run-time panic ends the process).\<close>

datatype 'a outcome = Returns 'a | Panics

text \<open>\<^verbatim>\<open>type ValidatorResponse struct\<close>, with its anonymous \<^verbatim>\<open>Result\<close> struct.\<close>

record ValidatorResult =
  Result_ID :: go_int
  StartEpoch :: go_int
  EndEpoch :: go_int
  Result_Nonce :: go_int
  Power :: go_int
  PubKey :: string
  Signer :: string
  LastUpdated :: string
  Jailed :: bool
  Accum :: go_int

record ValidatorResponse =
  Height :: string
  Result :: ValidatorResult
  Error :: string

text \<open>
  \<^verbatim>\<open>type StakeUpdateResponse struct\<close>: \<open>StakeUpdate\<close> is the element type of
  \<^verbatim>\<open>Data.StakeUpdates\<close>, a slice, modelled as a list.
\<close>

record StakeUpdate =
  ID :: string
  ValidatorID :: string
  TotalStaked :: string
  Block :: string
  Nonce :: string
  TransactionHash :: string
  LogIndex :: string

record StakeUpdateData =
  StakeUpdates :: "StakeUpdate list"

record StakeUpdateResponse =
  Data :: StakeUpdateData

text \<open>The package-level configuration variables, set by \<^verbatim>\<open>init\<close>.\<close>

record config =
  HeimdallRestUrl :: string
  PolygonSubGraphUrl :: string
  HeimdallChainId :: string
  EthereumRPCUrl :: string

text \<open>
  The two GraphQL query bodies. The bytes of a query are determined by the integers
  spliced into its text, so a query is represented by its shape and those integers.
\<close>

datatype graph_query = LatestNonceQuery go_int | StakeUpdateQuery go_int go_int

definition getLatestNonceQuery :: "go_int \<Rightarrow> graph_query" where
  "getLatestNonceQuery validatorId = LatestNonceQuery validatorId"

definition getStakeUpdateQuery :: "go_int \<Rightarrow> go_int \<Rightarrow> graph_query" where
  "getStakeUpdateQuery validatorId nonce = StakeUpdateQuery validatorId nonce"

section \<open>Library functions the program calls\<close>

subsection \<open>\<^verbatim>\<open>strconv.Atoi\<close> and \<^verbatim>\<open>big.Int.SetString(s, 10)\<close>\<close>

text \<open>
  Both accept an optional sign \<^verbatim>\<open>+\<close> or \<^verbatim>\<open>-\<close> followed by one or more decimal digits
  and nothing else. \<^verbatim>\<open>Atoi\<close> also fails when the value does not fit a 64-bit \<^verbatim>\<open>int\<close>.
\<close>

definition digit_val :: "char \<Rightarrow> nat option" where
  "digit_val c =
     (let k = (of_char c :: nat) in
      if 48 \<le> k \<and> k \<le> 57 then Some (k - 48) else None)"

fun parse_digits :: "nat \<Rightarrow> string \<Rightarrow> nat option" where
  "parse_digits n [] = Some n"
| "parse_digits n (c # cs) =
     (case digit_val c of None \<Rightarrow> None | Some d \<Rightarrow> parse_digits (n * 10 + d) cs)"

definition split_sign :: "string \<Rightarrow> bool \<times> string" where
  "split_sign s =
     (case s of
        [] \<Rightarrow> (False, [])
      | c # cs \<Rightarrow>
          if c = CHR ''-'' then (True, cs)
          else if c = CHR ''+'' then (False, cs)
          else (False, s))"

definition parse_decimal :: "string \<Rightarrow> int option" where
  "parse_decimal s =
     (case split_sign s of
        (neg, body) \<Rightarrow>
          if body = [] then None
          else (case parse_digits 0 body of
                  None \<Rightarrow> None
                | Some n \<Rightarrow> Some (if neg then - int n else int n)))"

definition Atoi :: "string \<Rightarrow> go_error + go_int" where
  "Atoi s =
     (case parse_decimal s of
        None \<Rightarrow> Inl (NumError ''Atoi'' s)
      | Some v \<Rightarrow>
          if - (2 ^ 63) \<le> v \<and> v < 2 ^ 63 then Inr (word_of_int v)
          else Inl (NumError ''Atoi'' s))"

definition SetString10 :: "string \<Rightarrow> int option" where
  "SetString10 s = parse_decimal s"

subsection \<open>Time\<close>

text \<open>
  A \<^verbatim>\<open>time.Time\<close> is an instant, in nanoseconds since the Unix epoch; a
  \<^verbatim>\<open>time.Duration\<close> is a 64-bit count of nanoseconds. \<^verbatim>\<open>Time.Sub\<close> (and so
  \<^verbatim>\<open>time.Since\<close>) saturates at the least and greatest duration.
\<close>

definition Second :: int where
  "Second = 1000000000"

definition Minute :: int where
  "Minute = 60 * Second"

definition time_Unix :: "go_int \<Rightarrow> int" where
  "time_Unix sec = sint sec * Second"

definition time_Sub :: "int \<Rightarrow> int \<Rightarrow> int" where
  "time_Sub t u =
     (let d = t - u in
      if d < - (2 ^ 63) then - (2 ^ 63)
      else if 2 ^ 63 - 1 < d then 2 ^ 63 - 1
      else d)"

section \<open>The outside world\<close>

text \<open>
  Everything the program reads from outside, at one moment: the answers of the two HTTP
  endpoints (the body read, or the error of the request or of the read), the answer of the
  Ethereum client, the clock, the exit of the \<^verbatim>\<open>heimdallcli\<close> subprocess, and at startup
  the \<^verbatim>\<open>.env\<close> file, the environment and the dial. The two uses of
  \<^verbatim>\<open>json.Unmarshal\<close> are parameters as well: the JSON decoder is not modelled, only the
  decoded value it yields (or its error).
\<close>

record world =
  godotenv_Load :: "go_error option"
  Getenv :: "string \<Rightarrow> string"
  Dial :: "string \<Rightarrow> go_error option"
  http_Get :: "string \<Rightarrow> go_int \<Rightarrow> go_error + string"
  http_Post :: "string \<Rightarrow> graph_query \<Rightarrow> go_error + string"
  Unmarshal_ValidatorResponse :: "string \<Rightarrow> go_error + ValidatorResponse"
  Unmarshal_StakeUpdateResponse :: "string \<Rightarrow> go_error + StakeUpdateResponse"
  BlockByNumber :: "int \<Rightarrow> go_error + go_int"
  Now :: int
  Run :: "string list \<Rightarrow> go_error option"

text \<open>What the program does to the outside, in order.\<close>

datatype arg = AStr string | AInt go_int | AErr go_error

datatype event =
    Println "arg list"
  | Fatal "arg list"
  | Sleep int
  | HttpGet string go_int
  | HttpPost string graph_query
  | RpcBlockByNumber int
  | Exec "string list"

definition time_Since :: "world \<Rightarrow> int \<Rightarrow> int" where
  "time_Since w t = time_Sub (Now w) t"

section \<open>The functions of \<^verbatim>\<open>main.go\<close>\<close>

text \<open>
  Each function returns the events it caused and its result. \<^verbatim>\<open>querySubGraph\<close> posts the
  query and reads the body.
\<close>

definition querySubGraph :: "world \<Rightarrow> string \<Rightarrow> graph_query \<Rightarrow> event list \<times> (go_error + string)" where
  "querySubGraph w grapghUrl query = ([HttpPost grapghUrl query], http_Post w grapghUrl query)"

definition getHeimdallValidatorNonce :: "config \<Rightarrow> world \<Rightarrow> go_int \<Rightarrow> event list \<times> (go_error + go_int)" where
  "getHeimdallValidatorNonce cfg w validatorId =
     ([HttpGet (HeimdallRestUrl cfg) validatorId],
      case http_Get w (HeimdallRestUrl cfg) validatorId of
        Inl err \<Rightarrow> Inl err
      | Inr data \<Rightarrow>
          (case Unmarshal_ValidatorResponse w data of
             Inl err \<Rightarrow> Inl err
           | Inr responseData \<Rightarrow>
               if Error responseData \<noteq> [] then Inr (- 1)
               else Inr (Result_Nonce (Result responseData))))"

definition getEthereumValidatorNonce :: "config \<Rightarrow> world \<Rightarrow> go_int \<Rightarrow> event list \<times> (go_error + go_int)" where
  "getEthereumValidatorNonce cfg w validatorId =
     (case querySubGraph w (PolygonSubGraphUrl cfg) (getLatestNonceQuery validatorId) of
        (ev, Inl err) \<Rightarrow> (ev, Inl err)
      | (ev, Inr data) \<Rightarrow>
          (case Unmarshal_StakeUpdateResponse w data of
             Inl err \<Rightarrow> (ev, Inl err)
           | Inr response \<Rightarrow>
               (case StakeUpdates (Data response) of
                  [] \<Rightarrow> (ev, Inr 0)
                | su # _ \<Rightarrow>
                    (case Atoi (Nonce su) of
                       Inl err \<Rightarrow> (ev, Inl err)
                     | Inr latestValidatorNonce \<Rightarrow> (ev, Inr latestValidatorNonce)))))"

text \<open>
  \<^verbatim>\<open>getBlockTime\<close>: the block's time is a \<^verbatim>\<open>uint64\<close>, converted with \<^verbatim>\<open>int64(...)\<close>
  (the same 64 bits) and handed to \<^verbatim>\<open>time.Unix\<close>.
\<close>

definition getBlockTime :: "world \<Rightarrow> string \<Rightarrow> event list \<times> (go_error + int)" where
  "getBlockTime w blockNumber =
     (case SetString10 blockNumber of
        None \<Rightarrow> ([], Inl (ErrorString (''invalid block number: '' @ blockNumber)))
      | Some blockBig \<Rightarrow>
          ([RpcBlockByNumber blockBig],
           case BlockByNumber w blockBig of
             Inl err \<Rightarrow> Inl err
           | Inr t \<Rightarrow> Inr (time_Unix t)))"

text \<open>The argument vector of \<^verbatim>\<open>exec.Command\<close> at line 143 (and of the line printed before it).\<close>

definition heimdallcli_args :: "config \<Rightarrow> StakeUpdate \<Rightarrow> string list" where
  "heimdallcli_args cfg stakeUpdate =
     [''heimdallcli'', ''tx'', ''staking'', ''stake-update'',
      ''--block-number'', Block stakeUpdate,
      ''--id'', ValidatorID stakeUpdate,
      ''--log-index'', LogIndex stakeUpdate,
      ''--nonce'', Nonce stakeUpdate,
      ''--staked-amount'', TotalStaked stakeUpdate,
      ''--tx-hash'', TransactionHash stakeUpdate,
      ''--chain-id'', HeimdallChainId cfg]"

text \<open>
  \<^verbatim>\<open>processStakeUpdate\<close>. Line 129 indexes \<^verbatim>\<open>response.Data.StakeUpdates[0]\<close> with no
  check of the length: on an empty slice Go panics with an index out of range.
\<close>

definition processStakeUpdate ::
  "config \<Rightarrow> world \<Rightarrow> go_int \<Rightarrow> go_int \<Rightarrow> event list \<times> go_error option outcome" where
  "processStakeUpdate cfg w validatorId nonce =
     (let ev0 = [Println [AStr ''Processing stake update for validator : '', AInt validatorId,
                          AStr '' nonce : '', AInt nonce]]
      in
      case querySubGraph w (PolygonSubGraphUrl cfg) (getStakeUpdateQuery validatorId nonce) of
        (ev1, Inl err) \<Rightarrow>
          (ev0 @ ev1 @
             [Println [AStr ''Error getting stake update from subGraph for validator: '',
                       AInt validatorId, AErr err]],
           Returns (Some err))
      | (ev1, Inr data) \<Rightarrow>
          (case Unmarshal_StakeUpdateResponse w data of
             Inl err \<Rightarrow>
               (ev0 @ ev1 @
                  [Println [AStr ''Error unmarshalling stake update for validator: '',
                            AInt validatorId, AErr err]],
                Returns (Some err))
           | Inr response \<Rightarrow>
               (case StakeUpdates (Data response) of
                  [] \<Rightarrow> (ev0 @ ev1, Panics)
                | stakeUpdate # _ \<Rightarrow>
                    (case getBlockTime w (Block stakeUpdate) of
                       (ev2, Inl err) \<Rightarrow>
                         (ev0 @ ev1 @ ev2 @
                            [Println [AStr ''Unable to get block time with err : '', AErr err]],
                          Returns (Some err))
                     | (ev2, Inr blockTime) \<Rightarrow>
                         if time_Since w blockTime < Minute * 10 then
                           (ev0 @ ev1 @ ev2 @
                              [Println [AStr ''Block time is less than ten minutes, skipping stake-update'']],
                            Returns None)
                         else
                           (let ev3 = ev0 @ ev1 @ ev2 @
                                  [Println (map AStr (heimdallcli_args cfg stakeUpdate)),
                                   Exec (heimdallcli_args cfg stakeUpdate)]
                            in
                            case Run w (heimdallcli_args cfg stakeUpdate) of
                              Some err \<Rightarrow>
                                (ev3 @
                                   [Println [AStr ''Error running heimdallcli stake update for validator: '',
                                             AInt validatorId, AErr err]],
                                 Returns (Some err))
                            | None \<Rightarrow>
                                (ev3 @ [Println [AStr (replicate 122 (CHR ''-''))]], Returns None))))))"

text \<open>
  One pass through the body of the \<^verbatim>\<open>for\<close> loop of \<^verbatim>\<open>main\<close>. Both \<^verbatim>\<open>continue\<close>
  statements and the end of the body lead to the next pass (\<open>Returns ()\<close>); a panic
  inside \<^verbatim>\<open>processStakeUpdate\<close> leaves the loop and the process.
\<close>

definition loop_body :: "config \<Rightarrow> world \<Rightarrow> go_int \<Rightarrow> go_int \<Rightarrow> event list \<times> unit outcome" where
  "loop_body cfg w validatorId ethereumNonce =
     (case getHeimdallValidatorNonce cfg w validatorId of
        (ev1, Inl err) \<Rightarrow>
          (ev1 @ [Println [AStr ''Error getting heimdall nonce for validator: '',
                           AInt validatorId, AErr err],
                  Sleep (1 * Second)],
           Returns ())
      | (ev1, Inr heimdallNonce) \<Rightarrow>
          (let ev2 = ev1 @ [Println [AStr ''Ethereum nonce : '', AInt ethereumNonce,
                                     AStr '' Heimdall nonce : '', AInt heimdallNonce]]
           in
           if heimdallNonce <s ethereumNonce then
             (case processStakeUpdate cfg w validatorId (heimdallNonce + 1) of
                (ev3, Panics) \<Rightarrow> (ev2 @ ev3, Panics)
              | (ev3, Returns (Some err)) \<Rightarrow>
                  (ev2 @ ev3 @
                     [Println [AStr ''Error processing stake update for validator: '',
                               AInt validatorId, AErr err],
                      Sleep (1 * Second)],
                   Returns ())
              | (ev3, Returns None) \<Rightarrow> (ev2 @ ev3 @ [Sleep (18 * Second)], Returns ()))
           else (ev2 @ [Sleep (18 * Second)], Returns ())))"

text \<open>
  How a run ends: the process exits with a status, dies in a panic, or is still in its
  loop when the observation stops.
\<close>

datatype ending = Exit nat | Panicked | Running

text \<open>
  The \<^verbatim>\<open>for\<close> loop. It has no exit of its own, so a run is observed for as many passes as
  there are worlds in the list, one world per pass; \<open>ethereumNonce\<close> is the only variable
  of the loop that outlives a pass, and it is handed on as the body leaves it.
\<close>

fun main_loop :: "config \<Rightarrow> go_int \<Rightarrow> go_int \<Rightarrow> world list \<Rightarrow> event list \<times> ending" where
  "main_loop cfg validatorId ethereumNonce [] = ([], Running)"
| "main_loop cfg validatorId ethereumNonce (w # ws) =
     (case loop_body cfg w validatorId ethereumNonce of
        (ev, Panics) \<Rightarrow> (ev, Panicked)
      | (ev, Returns _) \<Rightarrow>
          (case main_loop cfg validatorId ethereumNonce ws of
             (ev', e) \<Rightarrow> (ev @ ev', e)))"

text \<open>
  \<^verbatim>\<open>init\<close> and \<^verbatim>\<open>main\<close>. \<open>args\<close> is \<^verbatim>\<open>os.Args\<close>; \<open>w0\<close> is the world at startup.
  \<^verbatim>\<open>log.Fatal\<close> exits with status 1, a return from \<^verbatim>\<open>main\<close> with status 0;
  \<^verbatim>\<open>os.Args[1]\<close> panics when no argument was given.
\<close>

definition init :: "world \<Rightarrow> event list \<times> config option" where
  "init w0 =
     (case godotenv_Load w0 of
        Some err \<Rightarrow> ([Fatal [AStr ''Error loading .env file'']], None)
      | None \<Rightarrow>
          ([], Some \<lparr>HeimdallRestUrl = Getenv w0 ''heimdall_rest_url'',
                     PolygonSubGraphUrl = Getenv w0 ''polygon_sub_graph_url'',
                     HeimdallChainId = Getenv w0 ''heimdall_chain_id'',
                     EthereumRPCUrl = Getenv w0 ''ethereum_rpc_url''\<rparr>))"

definition main :: "config \<Rightarrow> string list \<Rightarrow> world \<Rightarrow> world list \<Rightarrow> event list \<times> ending" where
  "main cfg args w0 ws =
     (if length args < 2 then ([], Panicked)
      else
        case Atoi (args ! 1) of
          Inl err \<Rightarrow> ([Fatal [AStr ''Invalid validator id'']], Exit 1)
        | Inr validatorId \<Rightarrow>
            (case Dial w0 (EthereumRPCUrl cfg) of
               Some err \<Rightarrow> ([Fatal [AErr err]], Exit 1)
             | None \<Rightarrow>
                 (case getEthereumValidatorNonce cfg w0 validatorId of
                    (ev, Inl err) \<Rightarrow>
                      (ev @ [Println [AStr ''Error getting ethereum nonce for validator: '',
                                      AInt validatorId, AErr err]],
                       Exit 0)
                  | (ev, Inr ethereumNonce) \<Rightarrow>
                      (case main_loop cfg validatorId ethereumNonce ws of
                         (ev', e) \<Rightarrow> (ev @ ev', e)))))"

definition program :: "string list \<Rightarrow> world \<Rightarrow> world list \<Rightarrow> event list \<times> ending" where
  "program args w0 ws =
     (case init w0 of
        (ev, None) \<Rightarrow> (ev, Exit 1)
      | (ev, Some cfg) \<Rightarrow> (case main cfg args w0 ws of (ev', e) \<Rightarrow> (ev @ ev', e)))"

section \<open>Observations on a trace\<close>

text \<open>
  A correction is attempted when \<^verbatim>\<open>processStakeUpdate\<close> asks the graph for the record of a
  nonce: \<open>attempted_nonces\<close> lists those nonces. \<open>submissions\<close> lists the argument vectors
  of the subprocesses started, \<open>sleeps\<close> the pauses taken, \<open>latest_nonce_queries\<close> the
  validators whose source nonce was asked for, and \<open>compared\<close> the pairs of nonces
  printed at line 99, just before they are compared at line 101.
\<close>

definition attempted_nonces :: "event list \<Rightarrow> go_int list" where
  "attempted_nonces evs = [n. HttpPost u (StakeUpdateQuery v n) \<leftarrow> evs]"

definition latest_nonce_queries :: "event list \<Rightarrow> go_int list" where
  "latest_nonce_queries evs = [v. HttpPost u (LatestNonceQuery v) \<leftarrow> evs]"

definition submissions :: "event list \<Rightarrow> string list list" where
  "submissions evs = [a. Exec a \<leftarrow> evs]"

definition sleeps :: "event list \<Rightarrow> int list" where
  "sleeps evs = [d. Sleep d \<leftarrow> evs]"

definition compared :: "event list \<Rightarrow> (go_int \<times> go_int) list" where
  "compared evs =
     [(e, h). Println [AStr a, AInt e, AStr b, AInt h] \<leftarrow> evs, a = ''Ethereum nonce : '']"

section \<open>Concrete worlds\<close>

definition cfg0 :: config where
  "cfg0 = \<lparr>HeimdallRestUrl = ''http://heimdall'', PolygonSubGraphUrl = ''http://graph'',
           HeimdallChainId = ''heimdall-137'', EthereumRPCUrl = ''http://eth''\<rparr>"

definition rec4 :: StakeUpdate where
  "rec4 = \<lparr>ID = ''0xabc-4'', ValidatorID = ''7'', TotalStaked = ''1000000'',
           Block = ''18000000'', Nonce = ''4'', TransactionHash = ''0xdeadbeef'',
           LogIndex = ''12''\<rparr>"

definition rec9 :: StakeUpdate where
  "rec9 = \<lparr>ID = ''0xabc-9'', ValidatorID = ''8'', TotalStaked = ''5'',
           Block = ''18000001'', Nonce = ''9'', TransactionHash = ''0xfeed'',
           LogIndex = ''1''\<rparr>"

definition result3 :: ValidatorResult where
  "result3 = \<lparr>Result_ID = 7, StartEpoch = 0, EndEpoch = 0, Result_Nonce = 3, Power = 10,
              PubKey = ''pk'', Signer = ''0x01'', LastUpdated = ''1'', Jailed = False,
              Accum = 0\<rparr>"

text \<open>The validator is known, with nonce 3.\<close>

definition resp3 :: ValidatorResponse where
  "resp3 = \<lparr>Height = ''100'', Result = result3, Error = []\<rparr>"

text \<open>The validator is unknown: the error field is set, the result is all zero.\<close>

definition resp_unknown :: ValidatorResponse where
  "resp_unknown =
     \<lparr>Height = ''0'',
      Result = \<lparr>Result_ID = 0, StartEpoch = 0, EndEpoch = 0, Result_Nonce = 0, Power = 0,
                 PubKey = [], Signer = [], LastUpdated = [], Jailed = False, Accum = 0\<rparr>,
      Error = ''validator not found''\<rparr>"

text \<open>No error, and a nonce field of \<open>-1\<close>.\<close>

definition resp_minus1 :: ValidatorResponse where
  "resp_minus1 = \<lparr>Height = ''100'', Result = result3\<lparr>Result_Nonce := - 1\<rparr>, Error = []\<rparr>"

text \<open>
  Every request succeeds; the destination nonce is 3, the graph answers with the record of
  nonce 4, whose block is 20 minutes old.
\<close>

definition world0 :: world where
  "world0 =
     \<lparr>godotenv_Load = None, Getenv = (\<lambda>k. k), Dial = (\<lambda>u. None),
      http_Get = (\<lambda>u i. Inr ''validator-body''),
      http_Post = (\<lambda>u q. Inr ''graph-body''),
      Unmarshal_ValidatorResponse = (\<lambda>d. Inr resp3),
      Unmarshal_StakeUpdateResponse = (\<lambda>d. Inr \<lparr>Data = \<lparr>StakeUpdates = [rec4]\<rparr>\<rparr>),
      BlockByNumber = (\<lambda>n. Inr 1700000000),
      Now = 1700001200 * Second,
      Run = (\<lambda>a. None)\<rparr>"

text \<open>Variations of \<open>world0\<close>: the validator is unknown; the graph answers with two records, with none.\<close>

definition world_unknown :: world where
  "world_unknown = world0\<lparr>Unmarshal_ValidatorResponse := (\<lambda>d. Inr resp_unknown)\<rparr>"

definition world_two :: world where
  "world_two =
     world0\<lparr>Unmarshal_StakeUpdateResponse := (\<lambda>d. Inr \<lparr>Data = \<lparr>StakeUpdates = [rec4, rec9]\<rparr>\<rparr>)\<rparr>"

definition world_empty :: world where
  "world_empty =
     world0\<lparr>Unmarshal_StakeUpdateResponse := (\<lambda>d. Inr \<lparr>Data = \<lparr>StakeUpdates = []\<rparr>\<rparr>)\<rparr>"



text \<open>The graph endpoint cannot be reached.\<close>

definition world_down :: world where
  "world_down = world0\<lparr>http_Post := (\<lambda>u q. Inl (ErrorString ''connection refused''))\<rparr>"

text \<open>The destination answers with no error and a nonce field of \<open>-1\<close>.\<close>

definition world_minus1 :: world where
  "world_minus1 = world0\<lparr>Unmarshal_ValidatorResponse := (\<lambda>d. Inr resp_minus1)\<rparr>"

text \<open>The nonce of the record the graph answers with is not a number.\<close>

definition world_badnonce :: world where
  "world_badnonce =
     world0\<lparr>Unmarshal_StakeUpdateResponse :=
               (\<lambda>d. Inr \<lparr>Data = \<lparr>StakeUpdates = [rec4\<lparr>Nonce := ''4x''\<rparr>]\<rparr>\<rparr>)\<rparr>"

text \<open>
  The validator is unknown to the destination ledger and the graph has no record for the
  nonce asked for.
\<close>

definition world_scenario_D :: world where
  "world_scenario_D =
     world_unknown\<lparr>Unmarshal_StakeUpdateResponse := (\<lambda>d. Inr \<lparr>Data = \<lparr>StakeUpdates = []\<rparr>\<rparr>)\<rparr>"

text \<open>As \<open>world0\<close>, but the graph now answers with the record of nonce 9.\<close>

definition world_nine :: world where
  "world_nine =
     world0\<lparr>Unmarshal_StakeUpdateResponse := (\<lambda>d. Inr \<lparr>Data = \<lparr>StakeUpdates = [rec9]\<rparr>\<rparr>)\<rparr>"

section \<open>Lemmas on the traces\<close>

lemma attempted_simps:
  "attempted_nonces [] = []"
  "attempted_nonces (ev # evs) =
     (case ev of HttpPost u (StakeUpdateQuery v n) \<Rightarrow> [n] | _ \<Rightarrow> []) @ attempted_nonces evs"
  "attempted_nonces (xs @ ys) = attempted_nonces xs @ attempted_nonces ys"
  by (simp_all add: attempted_nonces_def)

lemma sint_succ:
  assumes "h <s (e :: go_int)"
  shows "sint (h + 1) = sint h + 1"
proof -
  have "sint h < sint e"
    using assms by (simp add: word_sless_alt)
  moreover have "sint e < 2 ^ 63"
    using sint_lt [of e] by simp
  moreover have "- (2 ^ 63) \<le> sint h"
    using sint_ge [of h] by simp
  ultimately have "signed_take_bit 63 (sint h + 1) = sint h + 1"
    by (intro signed_take_bit_int_eq_self) auto
  then show ?thesis
    by (simp add: sint_word_ariths)
qed

lemma ghvn_events:
  "fst (getHeimdallValidatorNonce cfg w vid) = [HttpGet (HeimdallRestUrl cfg) vid]"
  by (simp add: getHeimdallValidatorNonce_def)

lemma psu_attempted: "attempted_nonces (fst (processStakeUpdate cfg w vid n)) = [n]"
  by (simp add: processStakeUpdate_def querySubGraph_def getStakeUpdateQuery_def getBlockTime_def
      attempted_nonces_def Let_def split: sum.splits list.splits option.splits prod.splits)

lemma loop_body_attempted:
  "attempted_nonces (fst (loop_body cfg w vid e)) =
     (case snd (getHeimdallValidatorNonce cfg w vid) of
        Inl err \<Rightarrow> []
      | Inr h \<Rightarrow> if h <s e then [h + 1] else [])"
proof -
  obtain ev1 res where g: "getHeimdallValidatorNonce cfg w vid = (ev1, res)"
    by (cases "getHeimdallValidatorNonce cfg w vid")
  have ev1: "ev1 = [HttpGet (HeimdallRestUrl cfg) vid]"
    using ghvn_events [of cfg w vid] g by simp
  show ?thesis
  proof (cases res)
    case (Inl err)
    with g ev1 show ?thesis
      by (simp add: loop_body_def attempted_simps)
  next
    case (Inr h)
    obtain ev3 r where p: "processStakeUpdate cfg w vid (h + 1) = (ev3, r)"
      by (cases "processStakeUpdate cfg w vid (h + 1)")
    then have "attempted_nonces ev3 = [h + 1]"
      using psu_attempted [of cfg w vid "h + 1"] by simp
    with Inr p g ev1 show ?thesis
      by (simp add: loop_body_def Let_def attempted_simps split: outcome.splits option.splits)
  qed
qed

lemma loop_body_no_attempt:
  assumes "snd (getHeimdallValidatorNonce cfg w vid) = Inr h" and "\<not> h <s e"
  shows "loop_body cfg w vid e =
           ([HttpGet (HeimdallRestUrl cfg) vid,
             Println [AStr ''Ethereum nonce : '', AInt e, AStr '' Heimdall nonce : '', AInt h],
             Sleep (18 * Second)],
            Returns ())"
proof -
  obtain ev1 where g: "getHeimdallValidatorNonce cfg w vid = (ev1, Inr h)"
    using assms(1) by (cases "getHeimdallValidatorNonce cfg w vid") simp
  then have "ev1 = [HttpGet (HeimdallRestUrl cfg) vid]"
    using ghvn_events [of cfg w vid] by simp
  with g assms(2) show ?thesis
    by (simp add: loop_body_def)
qed

section \<open>The nonce comparison\<close>

text \<open>
  C1. Once the destination nonce has been fetched, a pass of the loop attempts a correction
  if and only if the source nonce is strictly greater (as signed integers) than the
  destination nonce, and then it attempts exactly one, for the destination nonce plus one,
  whatever the gap; the addition does not wrap around. When the source nonce is at most
  the destination nonce the pass only prints the two nonces and sleeps 18 seconds.
\<close>

theorem nonce_comparison_decision:
  "snd (getHeimdallValidatorNonce cfg w validatorId) = Inr heimdallNonce \<Longrightarrow>
     attempted_nonces (fst (loop_body cfg w validatorId ethereumNonce)) =
       (if sint heimdallNonce < sint ethereumNonce then [heimdallNonce + 1] else [])
     \<and> (sint heimdallNonce < sint ethereumNonce \<longrightarrow>
          sint (heimdallNonce + 1) = sint heimdallNonce + 1)
     \<and> (sint ethereumNonce \<le> sint heimdallNonce \<longrightarrow>
          loop_body cfg w validatorId ethereumNonce =
            ([HttpGet (HeimdallRestUrl cfg) validatorId,
              Println [AStr ''Ethereum nonce : '', AInt ethereumNonce,
                       AStr '' Heimdall nonce : '', AInt heimdallNonce],
              Sleep (18 * Second)],
             Returns ()))"
proof (intro conjI impI)
  assume g: "snd (getHeimdallValidatorNonce cfg w validatorId) = Inr heimdallNonce"
  show "attempted_nonces (fst (loop_body cfg w validatorId ethereumNonce)) =
          (if sint heimdallNonce < sint ethereumNonce then [heimdallNonce + 1] else [])"
    using g by (simp add: loop_body_attempted word_sless_alt)
  show "sint (heimdallNonce + 1) = sint heimdallNonce + 1"
    if "sint heimdallNonce < sint ethereumNonce"
    using that sint_succ [of heimdallNonce ethereumNonce] by (simp add: word_sless_alt)
  show "loop_body cfg w validatorId ethereumNonce =
          ([HttpGet (HeimdallRestUrl cfg) validatorId,
            Println [AStr ''Ethereum nonce : '', AInt ethereumNonce,
                     AStr '' Heimdall nonce : '', AInt heimdallNonce],
            Sleep (18 * Second)],
           Returns ())"
    if "sint ethereumNonce \<le> sint heimdallNonce"
    using that g loop_body_no_attempt [of cfg w validatorId heimdallNonce ethereumNonce]
    by (simp add: word_sless_alt)
qed

theorem nonce_comparison_decision_witness:
  "snd (getHeimdallValidatorNonce cfg0 world0 7) = Inr 3
   \<and> attempted_nonces (fst (loop_body cfg0 world0 7 9)) = [4]
   \<and> sint (3 + 1 :: go_int) = 4
   \<and> attempted_nonces (fst (loop_body cfg0 world0 7 3)) = []
   \<and> loop_body cfg0 world0 7 3 =
       ([HttpGet ''http://heimdall'' 7,
         Println [AStr ''Ethereum nonce : '', AInt 3, AStr '' Heimdall nonce : '', AInt 3],
         Sleep 18000000000],
        Returns ())"
proof -
  have g: "snd (getHeimdallValidatorNonce cfg0 world0 7) = Inr 3"
    by (simp add: getHeimdallValidatorNonce_def world0_def resp3_def result3_def)
  show ?thesis
    using g nonce_comparison_decision [OF g, of 9] nonce_comparison_decision [OF g, of 3]
    by (simp add: cfg0_def Second_def attempted_simps)
qed

section \<open>The destination nonce and its sentinel\<close>

lemma ghvn_decoded:
  assumes "http_Get w (HeimdallRestUrl cfg) vid = Inr data"
    and "Unmarshal_ValidatorResponse w data = Inr r"
  shows "snd (getHeimdallValidatorNonce cfg w vid) =
           Inr (if Error r \<noteq> [] then - 1 else Result_Nonce (Result r))"
  using assms by (simp add: getHeimdallValidatorNonce_def)

text \<open>
  C6, as stated, fails: with an empty error field and a nonce field of \<open>-1\<close> the fetch
  returns \<open>-1\<close>, the value of the sentinel, although the error field is empty.
\<close>

theorem sentinel_iff_error_counterexample:
  "\<not> (snd (getHeimdallValidatorNonce cfg0 world_minus1 7) = Inr (- 1)
        \<longleftrightarrow> Error resp_minus1 \<noteq> [])"
  by (simp add: getHeimdallValidatorNonce_def world_minus1_def world0_def resp_minus1_def
      result3_def)

text \<open>
  C6, amended. For every decoded response the fetch returns \<open>-1\<close> when the error field is
  non-empty, whatever the nonce field holds, and the nonce field otherwise; so it returns
  \<open>-1\<close> if and only if the error field is non-empty or the nonce field is itself \<open>-1\<close>.
\<close>

theorem destination_nonce_of_decoded:
  "http_Get w (HeimdallRestUrl cfg) validatorId = Inr data \<Longrightarrow>
   Unmarshal_ValidatorResponse w data = Inr responseData \<Longrightarrow>
     snd (getHeimdallValidatorNonce cfg w validatorId) =
       Inr (if Error responseData \<noteq> [] then - 1 else Result_Nonce (Result responseData))
     \<and> (snd (getHeimdallValidatorNonce cfg w validatorId) = Inr (- 1)
          \<longleftrightarrow> Error responseData \<noteq> [] \<or> Result_Nonce (Result responseData) = - 1)"
  using ghvn_decoded [of w cfg validatorId data responseData] by auto

theorem destination_nonce_of_decoded_witness:
  "http_Get world_unknown (HeimdallRestUrl cfg0) 7 = Inr ''validator-body''
   \<and> Unmarshal_ValidatorResponse world_unknown ''validator-body'' = Inr resp_unknown
   \<and> snd (getHeimdallValidatorNonce cfg0 world_unknown 7) = Inr (- 1)
   \<and> snd (getHeimdallValidatorNonce cfg0 world0 7) = Inr 3"
proof -
  have a: "http_Get world_unknown (HeimdallRestUrl cfg0) 7 = Inr ''validator-body''"
    by (simp add: world_unknown_def world0_def)
  have b: "Unmarshal_ValidatorResponse world_unknown ''validator-body'' = Inr resp_unknown"
    by (simp add: world_unknown_def world0_def)
  have c: "http_Get world0 (HeimdallRestUrl cfg0) 7 = Inr ''validator-body''"
    by (simp add: world0_def)
  have d: "Unmarshal_ValidatorResponse world0 ''validator-body'' = Inr resp3"
    by (simp add: world0_def)
  show ?thesis
    using a b destination_nonce_of_decoded [OF a b] destination_nonce_of_decoded [OF c d]
    by (simp add: resp_unknown_def resp3_def result3_def)
qed

text \<open>
  C3, as stated, fails: the validator is unknown (the error field is set, the destination
  nonce is \<open>-1\<close>), the source nonce is 5, and a correction is attempted, for nonce 0.
\<close>

theorem unknown_validator_counterexample:
  "Error resp_unknown \<noteq> []
   \<and> Unmarshal_ValidatorResponse world_unknown ''validator-body'' = Inr resp_unknown
   \<and> snd (getHeimdallValidatorNonce cfg0 world_unknown 7) = Inr (- 1)
   \<and> attempted_nonces (fst (loop_body cfg0 world_unknown 7 5)) = [0]"
  by (simp add: loop_body_attempted getHeimdallValidatorNonce_def world_unknown_def world0_def
      resp_unknown_def word_sless_alt)

text \<open>
  C3, amended. While the validator is unknown on the destination ledger (the error field
  of the decoded response is non-empty, so the destination nonce is \<open>-1\<close>), a pass
  attempts a correction for nonce 0 whenever the source nonce is not negative, and none
  when it is negative.
\<close>

theorem unknown_validator_attempts_nonce_zero:
  "http_Get w (HeimdallRestUrl cfg) validatorId = Inr data \<Longrightarrow>
   Unmarshal_ValidatorResponse w data = Inr responseData \<Longrightarrow>
   Error responseData \<noteq> [] \<Longrightarrow>
     attempted_nonces (fst (loop_body cfg w validatorId ethereumNonce)) =
       (if 0 \<le> sint ethereumNonce then [0] else [])"
proof -
  assume a: "http_Get w (HeimdallRestUrl cfg) validatorId = Inr data"
    and b: "Unmarshal_ValidatorResponse w data = Inr responseData"
    and c: "Error responseData \<noteq> []"
  have "snd (getHeimdallValidatorNonce cfg w validatorId) = Inr (- 1)"
    using ghvn_decoded [OF a b] c by simp
  moreover have "(- 1 :: go_int) <s ethereumNonce \<longleftrightarrow> 0 \<le> sint ethereumNonce"
    by (auto simp add: word_sless_alt)
  ultimately show ?thesis
    by (simp add: loop_body_attempted)
qed

theorem unknown_validator_attempts_nonce_zero_witness:
  "http_Get world_unknown (HeimdallRestUrl cfg0) 7 = Inr ''validator-body''
   \<and> Unmarshal_ValidatorResponse world_unknown ''validator-body'' = Inr resp_unknown
   \<and> Error resp_unknown \<noteq> []
   \<and> attempted_nonces (fst (loop_body cfg0 world_unknown 7 5)) = [0]
   \<and> attempted_nonces (fst (loop_body cfg0 world_unknown 7 (- 2))) = []"
proof -
  have a: "http_Get world_unknown (HeimdallRestUrl cfg0) 7 = Inr ''validator-body''"
    by (simp add: world_unknown_def world0_def)
  have b: "Unmarshal_ValidatorResponse world_unknown ''validator-body'' = Inr resp_unknown"
    by (simp add: world_unknown_def world0_def)
  have c: "Error resp_unknown \<noteq> []"
    by (simp add: resp_unknown_def)
  show ?thesis
    using a b c unknown_validator_attempts_nonce_zero [OF a b c, of 5]
      unknown_validator_attempts_nonce_zero [OF a b c, of "- 2"]
    by simp
qed

section \<open>The source nonce at startup\<close>

lemma gevn_events:
  "fst (getEthereumValidatorNonce cfg w vid) =
     [HttpPost (PolygonSubGraphUrl cfg) (LatestNonceQuery vid)]"
  by (simp add: getEthereumValidatorNonce_def querySubGraph_def getLatestNonceQuery_def
      split: sum.splits list.splits)

text \<open>
  C9. When the graph answers and the answer decodes, the source-nonce fetch returns 0 and
  no error if the list of stake updates is empty, and otherwise what \<^verbatim>\<open>strconv.Atoi\<close>
  makes of the nonce of the first record: that base-10 integer, or the error of the parse.
\<close>

theorem source_nonce_fetch:
  "http_Post w (PolygonSubGraphUrl cfg) (LatestNonceQuery validatorId) = Inr data \<Longrightarrow>
   Unmarshal_StakeUpdateResponse w data = Inr response \<Longrightarrow>
     (StakeUpdates (Data response) = [] \<longrightarrow>
        snd (getEthereumValidatorNonce cfg w validatorId) = Inr 0)
     \<and> (\<forall>su rest. StakeUpdates (Data response) = su # rest \<longrightarrow>
          snd (getEthereumValidatorNonce cfg w validatorId) = Atoi (Nonce su))"
  by (auto simp add: getEthereumValidatorNonce_def querySubGraph_def getLatestNonceQuery_def
      split: sum.splits)

lemma Atoi_4: "Atoi ''4'' = Inr 4"
  by (simp add: Atoi_def parse_decimal_def split_sign_def digit_val_def)

lemma Atoi_4x: "Atoi ''4x'' = Inl (NumError ''Atoi'' ''4x'')"
  by (simp add: Atoi_def parse_decimal_def split_sign_def digit_val_def)

theorem source_nonce_fetch_witness:
  "http_Post world0 (PolygonSubGraphUrl cfg0) (LatestNonceQuery 7) = Inr ''graph-body''
   \<and> snd (getEthereumValidatorNonce cfg0 world0 7) = Inr 4
   \<and> snd (getEthereumValidatorNonce cfg0 world_empty 7) = Inr 0
   \<and> snd (getEthereumValidatorNonce cfg0 world_badnonce 7) = Inl (NumError ''Atoi'' ''4x'')"
proof -
  have a: "http_Post world0 (PolygonSubGraphUrl cfg0) (LatestNonceQuery 7) = Inr ''graph-body''"
    by (simp add: world0_def)
  have b: "Unmarshal_StakeUpdateResponse world0 ''graph-body'' = Inr \<lparr>Data = \<lparr>StakeUpdates = [rec4]\<rparr>\<rparr>"
    by (simp add: world0_def)
  have a': "http_Post world_empty (PolygonSubGraphUrl cfg0) (LatestNonceQuery 7) = Inr ''graph-body''"
    by (simp add: world_empty_def world0_def)
  have b': "Unmarshal_StakeUpdateResponse world_empty ''graph-body'' = Inr \<lparr>Data = \<lparr>StakeUpdates = []\<rparr>\<rparr>"
    by (simp add: world_empty_def world0_def)
  have a'': "http_Post world_badnonce (PolygonSubGraphUrl cfg0) (LatestNonceQuery 7) = Inr ''graph-body''"
    by (simp add: world_badnonce_def world0_def)
  have b'': "Unmarshal_StakeUpdateResponse world_badnonce ''graph-body'' =
               Inr \<lparr>Data = \<lparr>StakeUpdates = [rec4\<lparr>Nonce := ''4x''\<rparr>]\<rparr>\<rparr>"
    by (simp add: world_badnonce_def world0_def)
  show ?thesis
    using a source_nonce_fetch [OF a b] source_nonce_fetch [OF a' b'] source_nonce_fetch [OF a'' b'']
    by (simp add: rec4_def Atoi_4 Atoi_4x)
qed

text \<open>
  C10. When the validator id parses and the dial succeeds but the source-nonce fetch at
  startup returns an error, \<^verbatim>\<open>main\<close> prints the error and returns: the process exits with
  status 0, without a fatal log call, and no pass of the loop is made, whatever the worlds
  that would have followed.
\<close>

theorem startup_source_nonce_error_exits:
  "2 \<le> length args \<Longrightarrow>
   Atoi (args ! 1) = Inr validatorId \<Longrightarrow>
   Dial w0 (EthereumRPCUrl cfg) = None \<Longrightarrow>
   snd (getEthereumValidatorNonce cfg w0 validatorId) = Inl err \<Longrightarrow>
     main cfg args w0 ws =
       ([HttpPost (PolygonSubGraphUrl cfg) (LatestNonceQuery validatorId),
         Println [AStr ''Error getting ethereum nonce for validator: '', AInt validatorId,
                  AErr err]],
        Exit 0)"
proof -
  assume a: "2 \<le> length args" and b: "Atoi (args ! 1) = Inr validatorId"
    and c: "Dial w0 (EthereumRPCUrl cfg) = None"
    and d: "snd (getEthereumValidatorNonce cfg w0 validatorId) = Inl err"
  have "getEthereumValidatorNonce cfg w0 validatorId =
          ([HttpPost (PolygonSubGraphUrl cfg) (LatestNonceQuery validatorId)], Inl err)"
    using d gevn_events [of cfg w0 validatorId]
    by (cases "getEthereumValidatorNonce cfg w0 validatorId") simp
  with a b c show ?thesis
    by (simp add: main_def)
qed

theorem startup_source_nonce_error_exits_witness:
  "2 \<le> length [''stake-update'', ''7'']
   \<and> Atoi ([''stake-update'', ''7''] ! 1) = Inr 7
   \<and> Dial world_down (EthereumRPCUrl cfg0) = None
   \<and> snd (getEthereumValidatorNonce cfg0 world_down 7) = Inl (ErrorString ''connection refused'')
   \<and> main cfg0 [''stake-update'', ''7''] world_down [world0, world0] =
       ([HttpPost ''http://graph'' (LatestNonceQuery 7),
         Println [AStr ''Error getting ethereum nonce for validator: '', AInt 7,
                  AErr (ErrorString ''connection refused'')]],
        Exit 0)"
proof -
  have a: "2 \<le> length [''stake-update'', ''7'']"
    by simp
  have b: "Atoi ([''stake-update'', ''7''] ! 1) = Inr 7"
    by (simp add: Atoi_def parse_decimal_def split_sign_def digit_val_def)
  have c: "Dial world_down (EthereumRPCUrl cfg0) = None"
    by (simp add: world_down_def world0_def)
  have d: "snd (getEthereumValidatorNonce cfg0 world_down 7) = Inl (ErrorString ''connection refused'')"
    by (simp add: getEthereumValidatorNonce_def querySubGraph_def world_down_def world0_def)
  show ?thesis
    using a b c d startup_source_nonce_error_exits [OF a b c d, of "[world0, world0]"]
    by (simp add: cfg0_def)
qed

section \<open>The staleness gate\<close>

lemma submissions_simps:
  "submissions [] = []"
  "submissions (ev # evs) = (case ev of Exec a \<Rightarrow> [a] | _ \<Rightarrow> []) @ submissions evs"
  "submissions (xs @ ys) = submissions xs @ submissions ys"
  by (simp_all add: submissions_def)


lemma since_ten_minutes: "time_Since w t < Minute * 10 \<longleftrightarrow> Now w - t < 10 * Minute"
  by (simp add: time_Since_def time_Sub_def Minute_def Second_def Let_def)

lemma loop_body_attempt:
  assumes "snd (getHeimdallValidatorNonce cfg w vid) = Inr h" and "h <s e"
    and "processStakeUpdate cfg w vid (h + 1) = (ev3, r)"
  shows "loop_body cfg w vid e =
           (let ev2 = [HttpGet (HeimdallRestUrl cfg) vid,
                       Println [AStr ''Ethereum nonce : '', AInt e,
                                AStr '' Heimdall nonce : '', AInt h]]
            in case r of
                 Panics \<Rightarrow> (ev2 @ ev3, Panics)
               | Returns (Some err) \<Rightarrow>
                   (ev2 @ ev3 @
                      [Println [AStr ''Error processing stake update for validator: '',
                                AInt vid, AErr err],
                       Sleep (1 * Second)],
                    Returns ())
               | Returns None \<Rightarrow> (ev2 @ ev3 @ [Sleep (18 * Second)], Returns ()))"
proof -
  obtain ev1 where g: "getHeimdallValidatorNonce cfg w vid = (ev1, Inr h)"
    using assms(1) by (cases "getHeimdallValidatorNonce cfg w vid") simp
  then have "ev1 = [HttpGet (HeimdallRestUrl cfg) vid]"
    using ghvn_events [of cfg w vid] by simp
  with g assms(2,3) show ?thesis
    by (simp add: loop_body_def Let_def split: outcome.splits option.splits)
qed


lemma psu_submit:
  assumes "http_Post w (PolygonSubGraphUrl cfg) (StakeUpdateQuery vid n) = Inr data"
    and "Unmarshal_StakeUpdateResponse w data = Inr response"
    and "StakeUpdates (Data response) = su # rest"
    and "SetString10 (Block su) = Some b"
    and "BlockByNumber w b = Inr t"
    and "\<not> Now w - time_Unix t < 10 * Minute"
  shows "submissions (fst (processStakeUpdate cfg w vid n)) = [heimdallcli_args cfg su]"
  using assms
  by (simp add: processStakeUpdate_def querySubGraph_def getStakeUpdateQuery_def getBlockTime_def
      since_ten_minutes submissions_simps Let_def split: option.splits)

lemma psu_sleeps: "sleeps (fst (processStakeUpdate cfg w vid n)) = []"
  by (simp add: processStakeUpdate_def querySubGraph_def getStakeUpdateQuery_def getBlockTime_def
      sleeps_def Let_def split: sum.splits list.splits option.splits prod.splits)


lemma rec4_block: "SetString10 (Block rec4) = Some 18000000"
  by (simp add: rec4_def SetString10_def parse_decimal_def split_sign_def digit_val_def)


section \<open>The record lookup\<close>

lemma psu_first_only:
  assumes "http_Post w (PolygonSubGraphUrl cfg) (StakeUpdateQuery vid n) = Inr data"
    and "Unmarshal_StakeUpdateResponse w data = Inr response"
    and "StakeUpdates (Data response) = su # rest"
  shows "processStakeUpdate cfg w vid n =
           processStakeUpdate cfg
             (w\<lparr>Unmarshal_StakeUpdateResponse := (\<lambda>d. Inr \<lparr>Data = \<lparr>StakeUpdates = [su]\<rparr>\<rparr>)\<rparr>)
             vid n"
  using assms
  by (simp add: processStakeUpdate_def querySubGraph_def getStakeUpdateQuery_def getBlockTime_def
      time_Since_def Let_def split: option.splits sum.splits)

lemma psu_no_panic:
  assumes "http_Post w (PolygonSubGraphUrl cfg) (StakeUpdateQuery vid n) = Inr data"
    and "Unmarshal_StakeUpdateResponse w data = Inr response"
    and "StakeUpdates (Data response) = su # rest"
  shows "snd (processStakeUpdate cfg w vid n) \<noteq> Panics"
  using assms
  by (simp add: processStakeUpdate_def querySubGraph_def getStakeUpdateQuery_def getBlockTime_def
      Let_def split: option.splits sum.splits)

lemma psu_submissions_subset:
  assumes "http_Post w (PolygonSubGraphUrl cfg) (StakeUpdateQuery vid n) = Inr data"
    and "Unmarshal_StakeUpdateResponse w data = Inr response"
    and "StakeUpdates (Data response) = su # rest"
  shows "set (submissions (fst (processStakeUpdate cfg w vid n))) \<subseteq> {heimdallcli_args cfg su}"
  using assms
  by (simp add: processStakeUpdate_def querySubGraph_def getStakeUpdateQuery_def getBlockTime_def
      submissions_simps Let_def split: option.splits sum.splits)

text \<open>
  C2, as stated, fails: the decoded result set has two elements, and the lookup does not
  fail. \<^verbatim>\<open>processStakeUpdate\<close> returns no error, having started the subprocess with the
  fields of the record at position 0.
\<close>

theorem record_lookup_counterexample:
  "Unmarshal_StakeUpdateResponse world_two ''graph-body'' =
     Inr \<lparr>Data = \<lparr>StakeUpdates = [rec4, rec9]\<rparr>\<rparr>
   \<and> snd (processStakeUpdate cfg0 world_two 7 4) = Returns None
   \<and> submissions (fst (processStakeUpdate cfg0 world_two 7 4)) = [heimdallcli_args cfg0 rec4]"
  by (simp add: processStakeUpdate_def querySubGraph_def getStakeUpdateQuery_def getBlockTime_def
      world_two_def world0_def rec4_block time_Since_def time_Sub_def time_Unix_def Minute_def
      Second_def submissions_simps Let_def)

text \<open>
  C2, amended. For every decoded subgraph response whose result set has more than one
  element, the record lookup does not fail on that account: \<^verbatim>\<open>processStakeUpdate\<close> does
  not panic, takes the element at position 0 and goes on exactly as it does when that
  element is the only one. No check that exactly one record matched is made. (Nothing is
  said here of an empty result set.)
\<close>

theorem record_lookup_takes_first:
  "http_Post w (PolygonSubGraphUrl cfg) (StakeUpdateQuery validatorId nonce) = Inr data \<Longrightarrow>
   Unmarshal_StakeUpdateResponse w data = Inr response \<Longrightarrow>
   StakeUpdates (Data response) = stakeUpdate # rest \<Longrightarrow>
   rest \<noteq> [] \<Longrightarrow>
     snd (processStakeUpdate cfg w validatorId nonce) \<noteq> Panics
     \<and> processStakeUpdate cfg w validatorId nonce =
         processStakeUpdate cfg
           (w\<lparr>Unmarshal_StakeUpdateResponse :=
                (\<lambda>d. Inr \<lparr>Data = \<lparr>StakeUpdates = [stakeUpdate]\<rparr>\<rparr>)\<rparr>)
           validatorId nonce"
  using psu_first_only [of w cfg validatorId nonce data response stakeUpdate rest]
    psu_no_panic [of w cfg validatorId nonce data response stakeUpdate rest]
  by simp

theorem record_lookup_takes_first_witness:
  "http_Post world_two (PolygonSubGraphUrl cfg0) (StakeUpdateQuery 7 4) = Inr ''graph-body''
   \<and> Unmarshal_StakeUpdateResponse world_two ''graph-body'' =
       Inr \<lparr>Data = \<lparr>StakeUpdates = [rec4, rec9]\<rparr>\<rparr>
   \<and> [rec9] \<noteq> []
   \<and> snd (processStakeUpdate cfg0 world_two 7 4) \<noteq> Panics
   \<and> processStakeUpdate cfg0 world_two 7 4 = processStakeUpdate cfg0 world0 7 4"
proof -
  have p: "http_Post world_two (PolygonSubGraphUrl cfg0) (StakeUpdateQuery 7 4) = Inr ''graph-body''"
    by (simp add: world_two_def world0_def)
  have u: "Unmarshal_StakeUpdateResponse world_two ''graph-body'' =
             Inr \<lparr>Data = \<lparr>StakeUpdates = [rec4, rec9]\<rparr>\<rparr>"
    by (simp add: world_two_def world0_def)
  have l: "StakeUpdates (Data \<lparr>Data = \<lparr>StakeUpdates = [rec4, rec9]\<rparr>\<rparr>) = rec4 # [rec9]"
    by simp
  have n: "[rec9] \<noteq> []"
    by simp
  have w: "world_two\<lparr>Unmarshal_StakeUpdateResponse := (\<lambda>d. Inr \<lparr>Data = \<lparr>StakeUpdates = [rec4]\<rparr>\<rparr>)\<rparr> = world0"
    by (simp add: world_two_def world0_def)
  have r: "snd (processStakeUpdate cfg0 world_two 7 4) \<noteq> Panics
           \<and> processStakeUpdate cfg0 world_two 7 4 = processStakeUpdate cfg0 world0 7 4"
    using record_lookup_takes_first [OF p u l n] unfolding w .
  show ?thesis
    using p u n r by blast
qed

section \<open>From the record to the subprocess\<close>

text \<open>
  C8. The argument vector of the subprocess holds the textual fields of the decoded
  record (block, validator id, log index, nonce, total staked, transaction hash) as they
  were decoded, each after its flag, followed by the configured chain id: whenever a
  subprocess is started its arguments are these, and one is started when the block's time
  resolves and is at least 10 minutes old.
\<close>

theorem record_fields_round_trip:
  "http_Post w (PolygonSubGraphUrl cfg) (StakeUpdateQuery validatorId nonce) = Inr data \<Longrightarrow>
   Unmarshal_StakeUpdateResponse w data = Inr response \<Longrightarrow>
   StakeUpdates (Data response) = stakeUpdate # rest \<Longrightarrow>
     (\<forall>argv \<in> set (submissions (fst (processStakeUpdate cfg w validatorId nonce))).
        argv =
          [''heimdallcli'', ''tx'', ''staking'', ''stake-update'',
           ''--block-number'', Block stakeUpdate,
           ''--id'', ValidatorID stakeUpdate,
           ''--log-index'', LogIndex stakeUpdate,
           ''--nonce'', Nonce stakeUpdate,
           ''--staked-amount'', TotalStaked stakeUpdate,
           ''--tx-hash'', TransactionHash stakeUpdate,
           ''--chain-id'', HeimdallChainId cfg])
     \<and> (\<forall>blockBig t.
           SetString10 (Block stakeUpdate) = Some blockBig \<and> BlockByNumber w blockBig = Inr t
           \<and> 10 * Minute \<le> Now w - time_Unix t \<longrightarrow>
           submissions (fst (processStakeUpdate cfg w validatorId nonce)) =
             [[''heimdallcli'', ''tx'', ''staking'', ''stake-update'',
               ''--block-number'', Block stakeUpdate,
               ''--id'', ValidatorID stakeUpdate,
               ''--log-index'', LogIndex stakeUpdate,
               ''--nonce'', Nonce stakeUpdate,
               ''--staked-amount'', TotalStaked stakeUpdate,
               ''--tx-hash'', TransactionHash stakeUpdate,
               ''--chain-id'', HeimdallChainId cfg]])"
proof -
  assume p: "http_Post w (PolygonSubGraphUrl cfg) (StakeUpdateQuery validatorId nonce) = Inr data"
    and u: "Unmarshal_StakeUpdateResponse w data = Inr response"
    and l: "StakeUpdates (Data response) = stakeUpdate # rest"
  have a: "\<forall>argv \<in> set (submissions (fst (processStakeUpdate cfg w validatorId nonce))).
             argv = heimdallcli_args cfg stakeUpdate"
    using psu_submissions_subset [OF p u l] by auto
  have b: "submissions (fst (processStakeUpdate cfg w validatorId nonce)) =
             [heimdallcli_args cfg stakeUpdate]"
    if "SetString10 (Block stakeUpdate) = Some blockBig" and "BlockByNumber w blockBig = Inr t"
      and "10 * Minute \<le> Now w - time_Unix t" for blockBig t
    using psu_submit [OF p u l that(1) that(2)] that(3) by simp
  from a b show ?thesis
    unfolding heimdallcli_args_def by blast
qed

theorem record_fields_round_trip_witness:
  "http_Post world0 (PolygonSubGraphUrl cfg0) (StakeUpdateQuery 7 4) = Inr ''graph-body''
   \<and> Unmarshal_StakeUpdateResponse world0 ''graph-body'' = Inr \<lparr>Data = \<lparr>StakeUpdates = [rec4]\<rparr>\<rparr>
   \<and> SetString10 (Block rec4) = Some 18000000
   \<and> BlockByNumber world0 18000000 = Inr 1700000000
   \<and> 10 * Minute \<le> Now world0 - time_Unix 1700000000
   \<and> submissions (fst (processStakeUpdate cfg0 world0 7 4)) =
       [[''heimdallcli'', ''tx'', ''staking'', ''stake-update'',
         ''--block-number'', ''18000000'', ''--id'', ''7'', ''--log-index'', ''12'',
         ''--nonce'', ''4'', ''--staked-amount'', ''1000000'', ''--tx-hash'', ''0xdeadbeef'',
         ''--chain-id'', ''heimdall-137'']]"
proof -
  have p: "http_Post world0 (PolygonSubGraphUrl cfg0) (StakeUpdateQuery 7 4) = Inr ''graph-body''"
    by (simp add: world0_def)
  have u: "Unmarshal_StakeUpdateResponse world0 ''graph-body'' =
             Inr \<lparr>Data = \<lparr>StakeUpdates = [rec4]\<rparr>\<rparr>"
    by (simp add: world0_def)
  have l: "StakeUpdates (Data \<lparr>Data = \<lparr>StakeUpdates = [rec4]\<rparr>\<rparr>) = rec4 # []"
    by simp
  have t: "BlockByNumber world0 18000000 = Inr 1700000000"
    by (simp add: world0_def)
  have o: "10 * Minute \<le> Now world0 - time_Unix 1700000000"
    by (simp add: world0_def time_Unix_def Minute_def Second_def)
  have "submissions (fst (processStakeUpdate cfg0 world0 7 4)) =
          [[''heimdallcli'', ''tx'', ''staking'', ''stake-update'',
            ''--block-number'', Block rec4, ''--id'', ValidatorID rec4,
            ''--log-index'', LogIndex rec4, ''--nonce'', Nonce rec4,
            ''--staked-amount'', TotalStaked rec4, ''--tx-hash'', TransactionHash rec4,
            ''--chain-id'', HeimdallChainId cfg0]]"
    using record_fields_round_trip [OF p u l] rec4_block t o by blast
  then show ?thesis
    using p u rec4_block t o by (simp add: rec4_def cfg0_def)
qed

section \<open>Errors inside a pass\<close>

lemma fetch_error_continues:
  assumes "snd (getHeimdallValidatorNonce cfg w vid) = Inl err"
  shows "loop_body cfg w vid e =
           ([HttpGet (HeimdallRestUrl cfg) vid,
             Println [AStr ''Error getting heimdall nonce for validator: '', AInt vid, AErr err],
             Sleep (1 * Second)],
            Returns ())"
proof -
  obtain ev1 where g: "getHeimdallValidatorNonce cfg w vid = (ev1, Inl err)"
    using assms by (cases "getHeimdallValidatorNonce cfg w vid") simp
  then have "ev1 = [HttpGet (HeimdallRestUrl cfg) vid]"
    using ghvn_events [of cfg w vid] by simp
  with g show ?thesis
    by (simp add: loop_body_def)
qed

lemma process_error_continues:
  assumes "snd (getHeimdallValidatorNonce cfg w vid) = Inr h" and "h <s e"
    and "processStakeUpdate cfg w vid (h + 1) = (ev3, Returns (Some err))"
  shows "loop_body cfg w vid e =
           ([HttpGet (HeimdallRestUrl cfg) vid,
             Println [AStr ''Ethereum nonce : '', AInt e, AStr '' Heimdall nonce : '', AInt h]]
            @ ev3 @
            [Println [AStr ''Error processing stake update for validator: '', AInt vid, AErr err],
             Sleep (1 * Second)],
            Returns ())"
  using loop_body_attempt [OF assms] by (simp add: Let_def)

lemma psu_panics_iff:
  "snd (processStakeUpdate cfg w vid n) = Panics \<longleftrightarrow>
     (\<exists>data response.
        http_Post w (PolygonSubGraphUrl cfg) (StakeUpdateQuery vid n) = Inr data
        \<and> Unmarshal_StakeUpdateResponse w data = Inr response
        \<and> StakeUpdates (Data response) = [])"
  by (auto simp add: processStakeUpdate_def querySubGraph_def getStakeUpdateQuery_def
      getBlockTime_def Let_def split: option.splits sum.splits list.splits)

lemma loop_body_panics_iff:
  "snd (loop_body cfg w vid e) = Panics \<longleftrightarrow>
     (\<exists>h. snd (getHeimdallValidatorNonce cfg w vid) = Inr h \<and> h <s e
          \<and> snd (processStakeUpdate cfg w vid (h + 1)) = Panics)"
proof (cases "snd (getHeimdallValidatorNonce cfg w vid)")
  case (Inl err)
  then show ?thesis
    using fetch_error_continues [of cfg w vid err e] by simp
next
  case (Inr h)
  show ?thesis
  proof (cases "h <s e")
    case True
    obtain ev3 r where p: "processStakeUpdate cfg w vid (h + 1) = (ev3, r)"
      by (cases "processStakeUpdate cfg w vid (h + 1)")
    show ?thesis
      using Inr True p loop_body_attempt [OF Inr True p]
      by (simp add: Let_def split: outcome.splits option.splits)
  next
    case False
    then show ?thesis
      using Inr loop_body_no_attempt [OF Inr False] by simp
  qed
qed

text \<open>
  C4 fails on the code. At startup the source nonce is 4. In the first pass the validator
  is unknown to the destination ledger, so the destination nonce is \<open>-1\<close> and the record
  of nonce 0 is asked for; the graph answers with an empty list, line 129 indexes it, and
  the process dies in a panic: no pause of one second, no second pass.
\<close>

theorem empty_result_ends_process:
  "main cfg0 [''stake-update'', ''7''] world0 [world_scenario_D, world0] =
     ([HttpPost ''http://graph'' (LatestNonceQuery 7),
       HttpGet ''http://heimdall'' 7,
       Println [AStr ''Ethereum nonce : '', AInt 4, AStr '' Heimdall nonce : '', AInt (- 1)],
       Println [AStr ''Processing stake update for validator : '', AInt 7,
                AStr '' nonce : '', AInt 0],
       HttpPost ''http://graph'' (StakeUpdateQuery 7 0)],
      Panicked)"
proof -
  have a: "Atoi ''7'' = Inr 7"
    by (simp add: Atoi_def parse_decimal_def split_sign_def digit_val_def)
  have e: "getEthereumValidatorNonce cfg0 world0 7 =
             ([HttpPost ''http://graph'' (LatestNonceQuery 7)], Inr 4)"
    by (simp add: getEthereumValidatorNonce_def querySubGraph_def getLatestNonceQuery_def
        world0_def cfg0_def rec4_def Atoi_4)
  have g: "getHeimdallValidatorNonce cfg0 world_scenario_D 7 =
             ([HttpGet ''http://heimdall'' 7], Inr (- 1))"
    by (simp add: getHeimdallValidatorNonce_def world_scenario_D_def world_unknown_def
        world0_def cfg0_def resp_unknown_def)
  have p: "processStakeUpdate cfg0 world_scenario_D 7 0 =
             ([Println [AStr ''Processing stake update for validator : '', AInt 7,
                        AStr '' nonce : '', AInt 0],
               HttpPost ''http://graph'' (StakeUpdateQuery 7 0)],
              Panics)"
    by (simp add: processStakeUpdate_def querySubGraph_def getStakeUpdateQuery_def
        world_scenario_D_def world_unknown_def world0_def cfg0_def)
  have l: "loop_body cfg0 world_scenario_D 7 4 =
             ([HttpGet ''http://heimdall'' 7,
               Println [AStr ''Ethereum nonce : '', AInt 4, AStr '' Heimdall nonce : '', AInt (- 1)],
               Println [AStr ''Processing stake update for validator : '', AInt 7,
                        AStr '' nonce : '', AInt 0],
               HttpPost ''http://graph'' (StakeUpdateQuery 7 0)],
              Panics)"
    by (simp add: loop_body_def g p word_sless_alt)
  have d: "Dial world0 (EthereumRPCUrl cfg0) = None"
    by (simp add: world0_def)
  show ?thesis
    by (simp add: main_def a e l d)
qed

section \<open>The source nonce across the passes\<close>

lemma compared_simps:
  "compared [] = []"
  "compared (ev # evs) =
     (case ev of
        Println [AStr a, AInt x, AStr b, AInt h] \<Rightarrow>
          if a = ''Ethereum nonce : '' then [(x, h)] else []
      | _ \<Rightarrow> []) @ compared evs"
  "compared (xs @ ys) = compared xs @ compared ys"
  by (simp_all add: compared_def)

lemma latest_simps:
  "latest_nonce_queries [] = []"
  "latest_nonce_queries (ev # evs) =
     (case ev of HttpPost u (LatestNonceQuery v) \<Rightarrow> [v] | _ \<Rightarrow> []) @ latest_nonce_queries evs"
  "latest_nonce_queries (xs @ ys) = latest_nonce_queries xs @ latest_nonce_queries ys"
  by (simp_all add: latest_nonce_queries_def)

lemma psu_compared: "compared (fst (processStakeUpdate cfg w vid n)) = []"
  by (simp add: processStakeUpdate_def querySubGraph_def getStakeUpdateQuery_def getBlockTime_def
      compared_simps heimdallcli_args_def Let_def
      split: sum.splits list.splits option.splits prod.splits)

lemma psu_latest: "latest_nonce_queries (fst (processStakeUpdate cfg w vid n)) = []"
  by (simp add: processStakeUpdate_def querySubGraph_def getStakeUpdateQuery_def getBlockTime_def
      latest_simps Let_def split: sum.splits list.splits option.splits prod.splits)

lemma loop_body_compared:
  "compared (fst (loop_body cfg w vid e)) =
     (case snd (getHeimdallValidatorNonce cfg w vid) of Inl err \<Rightarrow> [] | Inr h \<Rightarrow> [(e, h)])"
proof (cases "snd (getHeimdallValidatorNonce cfg w vid)")
  case (Inl err)
  then show ?thesis
    by (simp add: fetch_error_continues compared_simps)
next
  case (Inr h)
  show ?thesis
  proof (cases "h <s e")
    case True
    obtain ev3 r where p: "processStakeUpdate cfg w vid (h + 1) = (ev3, r)"
      by (cases "processStakeUpdate cfg w vid (h + 1)")
    then have "compared ev3 = []"
      using psu_compared [of cfg w vid "h + 1"] by simp
    then show ?thesis
      using Inr loop_body_attempt [OF Inr True p]
      by (simp add: Let_def compared_simps split: outcome.splits option.splits)
  next
    case False
    then show ?thesis
      using Inr loop_body_no_attempt [OF Inr False] by (simp add: compared_simps)
  qed
qed

lemma loop_body_latest: "latest_nonce_queries (fst (loop_body cfg w vid e)) = []"
proof (cases "snd (getHeimdallValidatorNonce cfg w vid)")
  case (Inl err)
  then show ?thesis
    by (simp add: fetch_error_continues latest_simps)
next
  case (Inr h)
  show ?thesis
  proof (cases "h <s e")
    case True
    obtain ev3 r where p: "processStakeUpdate cfg w vid (h + 1) = (ev3, r)"
      by (cases "processStakeUpdate cfg w vid (h + 1)")
    then have "latest_nonce_queries ev3 = []"
      using psu_latest [of cfg w vid "h + 1"] by simp
    then show ?thesis
      using Inr loop_body_attempt [OF Inr True p]
      by (simp add: Let_def latest_simps split: outcome.splits option.splits)
  next
    case False
    then show ?thesis
      using Inr loop_body_no_attempt [OF Inr False] by (simp add: latest_simps)
  qed
qed

lemma main_loop_Cons:
  "main_loop cfg vid e (w # ws) =
     (case snd (loop_body cfg w vid e) of
        Panics \<Rightarrow> (fst (loop_body cfg w vid e), Panicked)
      | Returns u \<Rightarrow>
          (fst (loop_body cfg w vid e) @ fst (main_loop cfg vid e ws),
           snd (main_loop cfg vid e ws)))"
  by (simp split: prod.splits outcome.splits)

lemma main_loop_compared:
  "map fst (compared (fst (main_loop cfg vid e ws))) =
     replicate (length (compared (fst (main_loop cfg vid e ws)))) e"
proof (induction ws)
  case Nil
  show ?case
    by (simp add: compared_simps)
next
  case (Cons w ws)
  have b: "map fst (compared (fst (loop_body cfg w vid e))) =
             replicate (length (compared (fst (loop_body cfg w vid e)))) e"
    by (simp add: loop_body_compared split: sum.splits)
  show ?case
  proof (cases "snd (loop_body cfg w vid e)")
    case Panics
    with b show ?thesis
      by (simp add: main_loop_Cons del: main_loop.simps)
  next
    case (Returns u)
    with b Cons show ?thesis
      by (simp add: main_loop_Cons compared_simps replicate_add del: main_loop.simps)
  qed
qed

lemma main_loop_latest: "latest_nonce_queries (fst (main_loop cfg vid e ws)) = []"
proof (induction ws)
  case Nil
  show ?case
    by (simp add: latest_simps)
next
  case (Cons w ws)
  then show ?case
    by (cases "snd (loop_body cfg w vid e)")
       (simp_all add: main_loop_Cons latest_simps loop_body_latest del: main_loop.simps)
qed

text \<open>
  C7. When startup succeeds with source nonce \<open>ethereumNonce\<close>, the run asks the graph
  for the source nonce exactly once, before the loop, and the loop is run with that value:
  in every pass, however many there are and whatever the worlds answer, the source nonce
  that is printed and compared is \<open>ethereumNonce\<close>.
\<close>

theorem source_nonce_fixed:
  "2 \<le> length args \<Longrightarrow>
   Atoi (args ! 1) = Inr validatorId \<Longrightarrow>
   Dial w0 (EthereumRPCUrl cfg) = None \<Longrightarrow>
   snd (getEthereumValidatorNonce cfg w0 validatorId) = Inr ethereumNonce \<Longrightarrow>
     main cfg args w0 ws =
       (HttpPost (PolygonSubGraphUrl cfg) (LatestNonceQuery validatorId)
          # fst (main_loop cfg validatorId ethereumNonce ws),
        snd (main_loop cfg validatorId ethereumNonce ws))
     \<and> latest_nonce_queries (fst (main cfg args w0 ws)) = [validatorId]
     \<and> map fst (compared (fst (main cfg args w0 ws))) =
         replicate (length (compared (fst (main cfg args w0 ws)))) ethereumNonce"
proof -
  assume a: "2 \<le> length args" and b: "Atoi (args ! 1) = Inr validatorId"
    and c: "Dial w0 (EthereumRPCUrl cfg) = None"
    and d: "snd (getEthereumValidatorNonce cfg w0 validatorId) = Inr ethereumNonce"
  have "getEthereumValidatorNonce cfg w0 validatorId =
          ([HttpPost (PolygonSubGraphUrl cfg) (LatestNonceQuery validatorId)], Inr ethereumNonce)"
    using d gevn_events [of cfg w0 validatorId]
    by (cases "getEthereumValidatorNonce cfg w0 validatorId") simp
  with a b c have m: "main cfg args w0 ws =
       (HttpPost (PolygonSubGraphUrl cfg) (LatestNonceQuery validatorId)
          # fst (main_loop cfg validatorId ethereumNonce ws),
        snd (main_loop cfg validatorId ethereumNonce ws))"
    by (simp add: main_def split: prod.splits)
  show ?thesis
    using main_loop_compared [of cfg validatorId ethereumNonce ws]
    by (simp add: m latest_simps compared_simps main_loop_latest)
qed

theorem source_nonce_fixed_witness:
  "2 \<le> length [''stake-update'', ''7'']
   \<and> Atoi ([''stake-update'', ''7''] ! 1) = Inr 7
   \<and> Dial world0 (EthereumRPCUrl cfg0) = None
   \<and> snd (getEthereumValidatorNonce cfg0 world0 7) = Inr 4
   \<and> snd (getEthereumValidatorNonce cfg0 world_nine 7) = Inr 9
   \<and> latest_nonce_queries
        (fst (main cfg0 [''stake-update'', ''7''] world0 [world_nine, world_nine])) = [7]
   \<and> compared (fst (main cfg0 [''stake-update'', ''7''] world0 [world_nine, world_nine])) =
       [(4, 3), (4, 3)]"
proof -
  have a: "2 \<le> length [''stake-update'', ''7'']"
    by simp
  have b: "Atoi ([''stake-update'', ''7''] ! 1) = Inr 7"
    by (simp add: Atoi_def parse_decimal_def split_sign_def digit_val_def)
  have c: "Dial world0 (EthereumRPCUrl cfg0) = None"
    by (simp add: world0_def)
  have d: "snd (getEthereumValidatorNonce cfg0 world0 7) = Inr 4"
    by (simp add: getEthereumValidatorNonce_def querySubGraph_def world0_def rec4_def Atoi_4)
  have d9: "snd (getEthereumValidatorNonce cfg0 world_nine 7) = Inr 9"
    by (simp add: getEthereumValidatorNonce_def querySubGraph_def world_nine_def world0_def
        rec9_def Atoi_def parse_decimal_def split_sign_def digit_val_def)
  have g: "snd (getHeimdallValidatorNonce cfg0 world_nine 7) = Inr 3"
    by (simp add: getHeimdallValidatorNonce_def world_nine_def world0_def resp3_def result3_def)
  have s: "snd (loop_body cfg0 world_nine 7 4) = Returns ()"
    using loop_body_panics_iff [of cfg0 world_nine 7 4]
    by (cases "snd (loop_body cfg0 world_nine 7 4)")
       (simp_all add: psu_panics_iff world_nine_def world0_def)
  have l: "compared (fst (loop_body cfg0 world_nine 7 4)) = [(4, 3)]"
    by (simp add: loop_body_compared g)
  have n: "main_loop cfg0 7 4 [] = ([], Running)"
    by simp
  have m: "compared (fst (main_loop cfg0 7 4 [world_nine, world_nine])) = [(4, 3), (4, 3)]"
    by (simp add: main_loop_Cons s l n compared_simps del: main_loop.simps)
  note t = source_nonce_fixed [OF a b c d, of "[world_nine, world_nine]"]
  have t2: "latest_nonce_queries
              (fst (main cfg0 [''stake-update'', ''7''] world0 [world_nine, world_nine])) = [7]"
    using t by blast
  have t1: "main cfg0 [''stake-update'', ''7''] world0 [world_nine, world_nine] =
              (HttpPost (PolygonSubGraphUrl cfg0) (LatestNonceQuery 7)
                 # fst (main_loop cfg0 7 4 [world_nine, world_nine]),
               snd (main_loop cfg0 7 4 [world_nine, world_nine]))"
    using t by blast
  have t3: "compared (fst (main cfg0 [''stake-update'', ''7''] world0 [world_nine, world_nine])) =
              [(4, 3), (4, 3)]"
    by (simp add: t1 m compared_simps del: main_loop.simps)
  show ?thesis
    using a b c d d9 t2 t3 by simp
qed

end
